theory Spec2Isabelle
  imports Main
begin

section \<open>The packaging manifest \<open>conanfile.py\<close> of jsocketpp\<close>

text \<open>
  The repository's only source file is a Conan recipe: a Python class
  \<open>jsocketppConan\<close> with ten class attributes and four methods. The methods
  call into the packaging tool (\<open>cmake_layout\<close>, the \<open>CMake\<close> helper and its
  \<open>configure\<close>, \<open>build\<close> and \<open>install\<close> methods); that code is not part of
  the repository and is a parameter of the model.
\<close>

subsection \<open>Data\<close>

text \<open>
  A class attribute of the recipe is either a string literal or a tuple of string
  literals.
\<close>

datatype attribute = Str string | Tuple "string list"

text \<open>
  The class body, in source order (lines 6 to 15 of \<open>conanfile.py\<close>).
\<close>

definition class_body :: "(string \<times> attribute) list" where
  "class_body =
    [(''name'', Str ''jsocketpp''),
     (''version'', Str ''0.1.0''),
     (''license'', Str ''MIT''),
     (''author'', Str ''Your Name <your@email.com>''),
     (''url'', Str ''https://github.com/yourusername/jsocketpp''),
     (''description'', Str ''A modern C++ socket library.''),
     (''topics'', Tuple [''socket'', ''network'', ''tcp'', ''udp'', ''c++'']),
     (''settings'', Tuple [''os'', ''compiler'', ''build_type'', ''arch'']),
     (''generators'', Tuple [''CMakeToolchain'', ''CMakeDeps'']),
     (''exports_sources'', Tuple [''CMakeLists.txt'', ''src/*'', ''include/*''])]"

text \<open>The object behind \<open>self.cpp_info\<close>; the recipe only touches its \<open>libs\<close>.\<close>

record cpp_info_t =
  libs :: "string list"

text \<open>
  An instance of the recipe: its attributes, its \<open>cpp_info\<close>, and \<open>env\<close>, which
  stands for everything else the packaging tool attaches to the instance or keeps
  in the world it runs in (the values chosen for the settings axes, the folders,
  the file system, the process environment, the state of helper objects).
\<close>

record 'w conanfile =
  attrs :: "(string \<times> attribute) list"
  cpp_info :: cpp_info_t
  env :: 'w

definition jsocketppConan :: "cpp_info_t \<Rightarrow> 'w \<Rightarrow> 'w conanfile" where
  "jsocketppConan ci w = \<lparr>attrs = class_body, cpp_info = ci, env = w\<rparr>"

definition getattr :: "'w conanfile \<Rightarrow> string \<Rightarrow> attribute option" where
  "getattr self k = map_of (attrs self) k"

subsection \<open>Calls, errors and non-termination\<close>

text \<open>
  A call made on a state \<open>'s\<close> either does not return (\<open>None\<close>), or ends in a
  state, having raised an exception (\<open>Inl\<close>) or returned a value (\<open>Inr\<close>).
  Exceptions are values of an arbitrary type \<open>'e\<close>.
\<close>

type_synonym ('e, 'a, 's) result = "(('e + 'a) \<times> 's) option"

text \<open>The delegated calls that appear in the recipe.\<close>

datatype call = Call_cmake_layout | Call_CMake | Call_configure | Call_build | Call_install

text \<open>
  The packaging tool's side: \<open>cmake_layout(conanfile)\<close>, the constructor
  \<open>CMake(conanfile)\<close>, which yields a helper object \<open>'c\<close>, and the helper's three
  methods. Each receives the recipe instance and may change it, raise or run forever.
\<close>

record ('e, 'c, 'w) driver =
  cmake_layout :: "'w conanfile \<Rightarrow> ('e, unit, 'w conanfile) result"
  CMake :: "'w conanfile \<Rightarrow> ('e, 'c, 'w conanfile) result"
  CMake_configure :: "'c \<Rightarrow> 'w conanfile \<Rightarrow> ('e, unit, 'w conanfile) result"
  CMake_build :: "'c \<Rightarrow> 'w conanfile \<Rightarrow> ('e, unit, 'w conanfile) result"
  CMake_install :: "'c \<Rightarrow> 'w conanfile \<Rightarrow> ('e, unit, 'w conanfile) result"

text \<open>
  A run of a method is observed through the log of delegated calls it has made and
  the recipe instance.
\<close>

type_synonym 'w state = "call list \<times> 'w conanfile"

text \<open>Making a delegated call: the call is logged, its outcome is the callee's.\<close>

definition invoke ::
  "call \<Rightarrow> ('w conanfile \<Rightarrow> ('e, 'a, 'w conanfile) result) \<Rightarrow> 'w state \<Rightarrow> ('e, 'a, 'w state) result" where
  "invoke c f = (\<lambda>(tr, self).
     case f self of
       None \<Rightarrow> None
     | Some (r, self') \<Rightarrow> Some (r, (tr @ [c], self')))"

text \<open>
  Statement sequencing in Python: the second statement runs only when the first
  has returned; an exception ends the method and is passed on as it is.
\<close>

definition and_then ::
  "('s \<Rightarrow> ('e, 'a, 's) result) \<Rightarrow> ('a \<Rightarrow> 's \<Rightarrow> ('e, 'b, 's) result) \<Rightarrow> 's \<Rightarrow> ('e, 'b, 's) result" where
  "and_then m f = (\<lambda>s.
     case m s of
       None \<Rightarrow> None
     | Some (Inl e, s') \<Rightarrow> Some (Inl e, s')
     | Some (Inr a, s') \<Rightarrow> f a s')"

subsection \<open>The four methods\<close>

definition layout :: "('e, 'c, 'w) driver \<Rightarrow> 'w state \<Rightarrow> ('e, unit, 'w state) result" where
  "layout drv = invoke Call_cmake_layout (cmake_layout drv)"

definition build :: "('e, 'c, 'w) driver \<Rightarrow> 'w state \<Rightarrow> ('e, unit, 'w state) result" where
  "build drv =
     and_then (invoke Call_CMake (CMake drv)) (\<lambda>cmake.
     and_then (invoke Call_configure (CMake_configure drv cmake)) (\<lambda>_.
     invoke Call_build (CMake_build drv cmake)))"

definition package :: "('e, 'c, 'w) driver \<Rightarrow> 'w state \<Rightarrow> ('e, unit, 'w state) result" where
  "package drv =
     and_then (invoke Call_CMake (CMake drv)) (\<lambda>cmake.
     invoke Call_install (CMake_install drv cmake))"

definition package_info :: "'w state \<Rightarrow> ('e, unit, 'w state) result" where
  "package_info = (\<lambda>(tr, self).
     Some (Inr (), (tr, self\<lparr>cpp_info := (cpp_info self)\<lparr>libs := [''socket'']\<rparr>\<rparr>)))"

subsection \<open>Observations\<close>

text \<open>The value of \<open>cpp_info.libs\<close> at the end of a run that ended.\<close>

definition libs_after :: "('e, 'a, 'w state) result \<Rightarrow> string list option" where
  "libs_after r = map_option (\<lambda>(_, (_, self)). libs (cpp_info self)) r"

subsection \<open>Running a method several times\<close>

primrec repeat_call :: "nat \<Rightarrow> ('s \<Rightarrow> ('e, unit, 's) result) \<Rightarrow> 's \<Rightarrow> ('e, unit, 's) result" where
  "repeat_call 0 m = (\<lambda>s. Some (Inr (), s))"
| "repeat_call (Suc n) m = and_then m (\<lambda>_. repeat_call n m)"

subsection \<open>The descriptive attributes\<close>





subsection \<open>Sample packaging tools\<close>

text \<open>
  Concrete tools over a world that is a single counter, used to run the methods on
  concrete inputs. In the first every call returns and leaves a mark in the
  counter. In the second the constructor \<open>CMake(self)\<close> raises, as Conan's does
  when the presets file of the toolchain generator is missing. In the third
  \<open>configure\<close> raises. In the fourth \<open>cmake_layout\<close> assigns \<open>conanfile.name\<close>,
  which from then on shadows the class attribute. In the fifth \<open>install\<close> never
  returns.
\<close>

definition stub_driver :: "(string, nat, nat) driver" where
  "stub_driver =
     \<lparr>cmake_layout = (\<lambda>self. Some (Inr (), self\<lparr>env := env self + 1\<rparr>)),
      CMake = (\<lambda>self. Some (Inr (env self), self)),
      CMake_configure = (\<lambda>c self. Some (Inr (), self\<lparr>env := env self + 10\<rparr>)),
      CMake_build = (\<lambda>c self. Some (Inr (), self\<lparr>env := env self + 100\<rparr>)),
      CMake_install = (\<lambda>c self. Some (Inr (), self\<lparr>env := env self + 1000\<rparr>))\<rparr>"

definition no_presets_driver :: "(string, nat, nat) driver" where
  "no_presets_driver =
     stub_driver\<lparr>CMake := (\<lambda>self. Some (Inl ''CMakePresets.json was not found'', self))\<rparr>"

definition configure_error_driver :: "(string, nat, nat) driver" where
  "configure_error_driver =
     stub_driver\<lparr>CMake_configure :=
       (\<lambda>c self. Some (Inl ''CMake configure failed'', self\<lparr>env := env self + 10\<rparr>))\<rparr>"


definition install_hangs_driver :: "(string, nat, nat) driver" where
  "install_hangs_driver = stub_driver\<lparr>CMake_install := (\<lambda>c self. None)\<rparr>"

section \<open>Unfolding the methods\<close>

lemma invoke_eq_Some:
  "invoke c f (tr, self) = Some (r, (tr', self')) \<longleftrightarrow> f self = Some (r, self') \<and> tr' = tr @ [c]"
  by (auto simp: invoke_def split: option.splits)

lemma build_cases:
  "build drv (tr, self) =
     (case CMake drv self of
        None \<Rightarrow> None
      | Some (Inl e, s1) \<Rightarrow> Some (Inl e, (tr @ [Call_CMake], s1))
      | Some (Inr c, s1) \<Rightarrow>
          (case CMake_configure drv c s1 of
             None \<Rightarrow> None
           | Some (Inl e, s2) \<Rightarrow> Some (Inl e, (tr @ [Call_CMake, Call_configure], s2))
           | Some (Inr u, s2) \<Rightarrow>
               (case CMake_build drv c s2 of
                  None \<Rightarrow> None
                | Some (r, s3) \<Rightarrow> Some (r, (tr @ [Call_CMake, Call_configure, Call_build], s3)))))"
  by (simp add: build_def and_then_def invoke_def split: option.splits sum.splits prod.splits)

lemma package_cases:
  "package drv (tr, self) =
     (case CMake drv self of
        None \<Rightarrow> None
      | Some (Inl e, s1) \<Rightarrow> Some (Inl e, (tr @ [Call_CMake], s1))
      | Some (Inr c, s1) \<Rightarrow>
          (case CMake_install drv c s1 of
             None \<Rightarrow> None
           | Some (r, s2) \<Rightarrow> Some (r, (tr @ [Call_CMake, Call_install], s2))))"
  by (simp add: package_def and_then_def invoke_def split: option.splits sum.splits prod.splits)

section \<open>Properties\<close>

subsection \<open>The library exposed by the package\<close>

text \<open>
  C1. Every invocation of \<open>package_info\<close> returns normally, makes no delegated call,
  and leaves \<open>cpp_info.libs\<close> equal to the one-element list \<open>["socket"]\<close>: the
  package exposes exactly one linkable library, named "socket".
\<close>

theorem package_info_libs:
  "\<exists>self'. (package_info (tr, self) :: ('e, unit, 'w state) result) = Some (Inr (), (tr, self'))
      \<and> libs (cpp_info self') = [''socket'']
      \<and> length (libs (cpp_info self')) = 1"
  by (simp add: package_info_def)

subsection \<open>Declarations\<close>

text \<open>
  C2. Every instance of the recipe carries the eight attributes the specification
  lists as declared metadata, with the values of the source: \<open>name\<close>, \<open>version\<close>,
  \<open>license\<close>, \<open>author\<close>, \<open>url\<close> (the homepage), \<open>description\<close>, \<open>topics\<close> and
  \<open>settings\<close>, and \<open>settings\<close> names exactly the four axes \<open>os\<close>, \<open>compiler\<close>,
  \<open>build_type\<close> and \<open>arch\<close>. The class body declares nothing besides them but
  \<open>generators\<close> and \<open>exports_sources\<close>, which are not descriptive metadata (C10, C3).
\<close>

theorem declared_metadata:
  "getattr (jsocketppConan ci w) ''name'' = Some (Str ''jsocketpp'')
   \<and> getattr (jsocketppConan ci w) ''version'' = Some (Str ''0.1.0'')
   \<and> getattr (jsocketppConan ci w) ''license'' = Some (Str ''MIT'')
   \<and> getattr (jsocketppConan ci w) ''author'' = Some (Str ''Your Name <your@email.com>'')
   \<and> getattr (jsocketppConan ci w) ''url'' = Some (Str ''https://github.com/yourusername/jsocketpp'')
   \<and> getattr (jsocketppConan ci w) ''description'' = Some (Str ''A modern C++ socket library.'')
   \<and> getattr (jsocketppConan ci w) ''topics'' = Some (Tuple [''socket'', ''network'', ''tcp'', ''udp'', ''c++''])
   \<and> getattr (jsocketppConan ci w) ''settings'' = Some (Tuple [''os'', ''compiler'', ''build_type'', ''arch''])
   \<and> map fst (attrs (jsocketppConan ci w)) =
        [''name'', ''version'', ''license'', ''author'', ''url'', ''description'', ''topics'', ''settings'',
         ''generators'', ''exports_sources'']"
  by (simp add: getattr_def jsocketppConan_def class_body_def)

text \<open>
  C3. The exported sources are exactly the three paths \<open>CMakeLists.txt\<close>, \<open>src/*\<close>
  and \<open>include/*\<close>, and \<open>layout\<close> is one call of \<open>cmake_layout\<close> on the instance:
  it does not return, raises, returns and changes the instance exactly as that call
  does, and that call is the only one it makes.
\<close>

theorem exports_and_layout:
  "getattr (jsocketppConan ci w) ''exports_sources'' = Some (Tuple [''CMakeLists.txt'', ''src/*'', ''include/*''])
   \<and> layout drv (tr, self) =
        (case cmake_layout drv self of
           None \<Rightarrow> None
         | Some (r, self') \<Rightarrow> Some (r, (tr @ [Call_cmake_layout], self')))"
  by (simp add: getattr_def jsocketppConan_def class_body_def layout_def invoke_def)

text \<open>The generators named by the class body.\<close>

lemma generators_declared:
  "getattr (jsocketppConan ci w) ''generators'' = Some (Tuple [''CMakeToolchain'', ''CMakeDeps''])"
  by (simp add: getattr_def jsocketppConan_def class_body_def)

subsection \<open>Build steps\<close>

text \<open>
  C4. After constructing the helper, \<open>build\<close> calls \<open>configure\<close> and then the
  helper's \<open>build\<close> (compile), and \<open>package\<close> calls \<open>install\<close>; the outcome and the
  final instance are those of the last delegated call, so the recipe adds no work of
  its own. A run that returns normally has made exactly these calls in this order;
  any run that ends has made a non-empty initial part of them and nothing else (a
  call that raises ends the method).
\<close>

theorem build_package_steps:
  "(CMake drv self = Some (Inr c, s1) \<longrightarrow> CMake_configure drv c s1 = Some (Inr (), s2) \<longrightarrow>
      CMake_build drv c s2 = Some (r, s3) \<longrightarrow>
        build drv (tr, self) = Some (r, (tr @ [Call_CMake, Call_configure, Call_build], s3)))
   \<and> (CMake drv self = Some (Inr c, s1) \<longrightarrow> CMake_install drv c s1 = Some (r, s2) \<longrightarrow>
        package drv (tr, self) = Some (r, (tr @ [Call_CMake, Call_install], s2)))
   \<and> (build drv (tr, self) = Some (Inr u, (tr', self')) \<longrightarrow>
        tr' = tr @ [Call_CMake, Call_configure, Call_build])
   \<and> (package drv (tr, self) = Some (Inr u, (tr', self')) \<longrightarrow>
        tr' = tr @ [Call_CMake, Call_install])
   \<and> (build drv (tr, self) = Some (q, (tr', self')) \<longrightarrow>
        tr' = tr @ [Call_CMake] \<or> tr' = tr @ [Call_CMake, Call_configure]
        \<or> tr' = tr @ [Call_CMake, Call_configure, Call_build])
   \<and> (package drv (tr, self) = Some (q, (tr', self')) \<longrightarrow>
        tr' = tr @ [Call_CMake] \<or> tr' = tr @ [Call_CMake, Call_install])"
proof (intro conjI impI)
  assume "CMake drv self = Some (Inr c, s1)" "CMake_configure drv c s1 = Some (Inr (), s2)"
    "CMake_build drv c s2 = Some (r, s3)"
  then show "build drv (tr, self) = Some (r, (tr @ [Call_CMake, Call_configure, Call_build], s3))"
    by (simp add: build_cases)
next
  assume "CMake drv self = Some (Inr c, s1)" "CMake_install drv c s1 = Some (r, s2)"
  then show "package drv (tr, self) = Some (r, (tr @ [Call_CMake, Call_install], s2))"
    by (simp add: package_cases)
next
  assume "build drv (tr, self) = Some (Inr u, (tr', self'))"
  then show "tr' = tr @ [Call_CMake, Call_configure, Call_build]"
    unfolding build_cases by (auto split: option.splits sum.splits)
next
  assume "package drv (tr, self) = Some (Inr u, (tr', self'))"
  then show "tr' = tr @ [Call_CMake, Call_install]"
    unfolding package_cases by (auto split: option.splits sum.splits)
next
  assume "build drv (tr, self) = Some (q, (tr', self'))"
  then show "tr' = tr @ [Call_CMake] \<or> tr' = tr @ [Call_CMake, Call_configure]
        \<or> tr' = tr @ [Call_CMake, Call_configure, Call_build]"
    unfolding build_cases by (auto split: option.splits sum.splits)
next
  assume "package drv (tr, self) = Some (q, (tr', self'))"
  then show "tr' = tr @ [Call_CMake] \<or> tr' = tr @ [Call_CMake, Call_install]"
    unfolding package_cases by (auto split: option.splits sum.splits)
qed

text \<open>With the first sample tool, both methods run through all their steps.\<close>

theorem build_package_steps_witness:
  "build stub_driver ([], jsocketppConan \<lparr>libs = []\<rparr> 0)
     = Some (Inr (), ([Call_CMake, Call_configure, Call_build], jsocketppConan \<lparr>libs = []\<rparr> 110))
   \<and> package stub_driver ([], jsocketppConan \<lparr>libs = []\<rparr> 0)
     = Some (Inr (), ([Call_CMake, Call_install], jsocketppConan \<lparr>libs = []\<rparr> 1000))"
proof -
  have new: "CMake stub_driver (jsocketppConan \<lparr>libs = []\<rparr> 0)
      = Some (Inr 0, jsocketppConan \<lparr>libs = []\<rparr> 0)"
    by (simp add: stub_driver_def jsocketppConan_def)
  have conf: "CMake_configure stub_driver 0 (jsocketppConan \<lparr>libs = []\<rparr> 0)
      = Some (Inr (), jsocketppConan \<lparr>libs = []\<rparr> 10)"
    by (simp add: stub_driver_def jsocketppConan_def)
  have comp: "CMake_build stub_driver 0 (jsocketppConan \<lparr>libs = []\<rparr> 10)
      = Some (Inr (), jsocketppConan \<lparr>libs = []\<rparr> 110)"
    by (simp add: stub_driver_def jsocketppConan_def)
  have inst: "CMake_install stub_driver 0 (jsocketppConan \<lparr>libs = []\<rparr> 0)
      = Some (Inr (), jsocketppConan \<lparr>libs = []\<rparr> 1000)"
    by (simp add: stub_driver_def jsocketppConan_def)
  have "build stub_driver ([], jsocketppConan \<lparr>libs = []\<rparr> 0)
     = Some (Inr (), ([] @ [Call_CMake, Call_configure, Call_build], jsocketppConan \<lparr>libs = []\<rparr> 110))"
    by (rule build_package_steps [THEN conjunct1, rule_format, OF new conf comp])
  moreover have "package stub_driver ([], jsocketppConan \<lparr>libs = []\<rparr> 0)
     = Some (Inr (), ([] @ [Call_CMake, Call_install], jsocketppConan \<lparr>libs = []\<rparr> 1000))"
    by (rule build_package_steps [THEN conjunct2, THEN conjunct1, rule_format, OF new inst])
  ultimately show ?thesis by simp
qed

subsection \<open>Errors\<close>

text \<open>
  C5, as stated, names \<open>configure\<close>, compile and \<open>install\<close> as the only calls whose
  error makes \<open>build\<close> or \<open>package\<close> raise. Both methods first construct the helper
  with \<open>CMake(self)\<close>, and an error raised there is passed on as well: with the
  second sample tool both methods raise although the log shows that none of the
  three steps was ever called.
\<close>

theorem constructor_error_counterexample:
  "build no_presets_driver ([], jsocketppConan \<lparr>libs = []\<rparr> 0)
     = Some (Inl ''CMakePresets.json was not found'', ([Call_CMake], jsocketppConan \<lparr>libs = []\<rparr> 0))
   \<and> package no_presets_driver ([], jsocketppConan \<lparr>libs = []\<rparr> 0)
     = Some (Inl ''CMakePresets.json was not found'', ([Call_CMake], jsocketppConan \<lparr>libs = []\<rparr> 0))"
  by (simp add: build_def package_def and_then_def invoke_def no_presets_driver_def stub_driver_def)

text \<open>
  C5, amended. \<open>build\<close> ends by raising \<open>e\<close> if and only if one of the delegated calls
  it makes raises \<open>e\<close>: the constructor \<open>CMake(self)\<close>, or \<open>configure\<close> once the
  constructor has returned, or compile once \<open>configure\<close> has returned. \<open>package\<close> ends
  by raising \<open>e\<close> if and only if the constructor or, after it, \<open>install\<close> raises \<open>e\<close>.
  The error is the callee's, the instance is as the callee left it, and the call that
  raised is the last one made: the recipe handles, checks and retries nothing.
\<close>

theorem build_package_raise_iff:
  "(build drv (tr, self) = Some (Inl e, (tr', self')) \<longleftrightarrow>
      (CMake drv self = Some (Inl e, self') \<and> tr' = tr @ [Call_CMake])
      \<or> (\<exists>c s1. CMake drv self = Some (Inr c, s1) \<and> CMake_configure drv c s1 = Some (Inl e, self')
            \<and> tr' = tr @ [Call_CMake, Call_configure])
      \<or> (\<exists>c s1 s2. CMake drv self = Some (Inr c, s1) \<and> CMake_configure drv c s1 = Some (Inr (), s2)
            \<and> CMake_build drv c s2 = Some (Inl e, self')
            \<and> tr' = tr @ [Call_CMake, Call_configure, Call_build]))
   \<and> (package drv (tr, self) = Some (Inl e, (tr', self')) \<longleftrightarrow>
      (CMake drv self = Some (Inl e, self') \<and> tr' = tr @ [Call_CMake])
      \<or> (\<exists>c s1. CMake drv self = Some (Inr c, s1) \<and> CMake_install drv c s1 = Some (Inl e, self')
            \<and> tr' = tr @ [Call_CMake, Call_install]))"
proof (intro conjI)
  show "build drv (tr, self) = Some (Inl e, (tr', self')) \<longleftrightarrow>
      (CMake drv self = Some (Inl e, self') \<and> tr' = tr @ [Call_CMake])
      \<or> (\<exists>c s1. CMake drv self = Some (Inr c, s1) \<and> CMake_configure drv c s1 = Some (Inl e, self')
            \<and> tr' = tr @ [Call_CMake, Call_configure])
      \<or> (\<exists>c s1 s2. CMake drv self = Some (Inr c, s1) \<and> CMake_configure drv c s1 = Some (Inr (), s2)
            \<and> CMake_build drv c s2 = Some (Inl e, self')
            \<and> tr' = tr @ [Call_CMake, Call_configure, Call_build])"
    unfolding build_cases by (auto split: option.splits sum.splits)
  show "package drv (tr, self) = Some (Inl e, (tr', self')) \<longleftrightarrow>
      (CMake drv self = Some (Inl e, self') \<and> tr' = tr @ [Call_CMake])
      \<or> (\<exists>c s1. CMake drv self = Some (Inr c, s1) \<and> CMake_install drv c s1 = Some (Inl e, self')
            \<and> tr' = tr @ [Call_CMake, Call_install])"
    unfolding package_cases by (auto split: option.splits sum.splits)
qed

text \<open>With the third sample tool, the error of \<open>configure\<close> is the error of \<open>build\<close>.\<close>

theorem build_package_raise_iff_witness:
  "build configure_error_driver ([], jsocketppConan \<lparr>libs = []\<rparr> 0)
     = Some (Inl ''CMake configure failed'', ([Call_CMake, Call_configure], jsocketppConan \<lparr>libs = []\<rparr> 10))"
proof -
  have new: "CMake configure_error_driver (jsocketppConan \<lparr>libs = []\<rparr> 0)
      = Some (Inr 0, jsocketppConan \<lparr>libs = []\<rparr> 0)"
    by (simp add: configure_error_driver_def stub_driver_def jsocketppConan_def)
  have conf: "CMake_configure configure_error_driver 0 (jsocketppConan \<lparr>libs = []\<rparr> 0)
      = Some (Inl ''CMake configure failed'', jsocketppConan \<lparr>libs = []\<rparr> 10)"
    by (simp add: configure_error_driver_def stub_driver_def jsocketppConan_def)
  have "build configure_error_driver ([], jsocketppConan \<lparr>libs = []\<rparr> 0)
     = Some (Inl ''CMake configure failed'', ([] @ [Call_CMake, Call_configure], jsocketppConan \<lparr>libs = []\<rparr> 10))"
    apply (rule build_package_raise_iff [THEN conjunct1, THEN iffD2])
    apply (rule disjI2, rule disjI1)
    apply (rule exI [of _ 0], rule exI [of _ "jsocketppConan \<lparr>libs = []\<rparr> 0"])
    apply (intro conjI new conf refl)
    done
  then show ?thesis by simp
qed

subsection \<open>Frame\<close>














subsection \<open>Termination\<close>

text \<open>
  C7. Every method is a fixed, finite sequence of delegated calls: a run fails to
  end exactly when one of the delegated calls it makes fails to end, so it ends
  whenever those calls end. \<open>layout\<close> makes one call, \<open>build\<close> at most three,
  \<open>package\<close> at most two, whatever the instance, and \<open>package_info\<close>, which makes
  none, always returns. Calls the run does not make (such as \<open>install\<close> for \<open>build\<close>)
  play no part.
\<close>

theorem methods_terminate:
  "(layout drv (tr, self) = None \<longleftrightarrow> cmake_layout drv self = None)
   \<and> (build drv (tr, self) = None \<longleftrightarrow>
        CMake drv self = None
        \<or> (\<exists>c s1. CMake drv self = Some (Inr c, s1) \<and> CMake_configure drv c s1 = None)
        \<or> (\<exists>c s1 s2. CMake drv self = Some (Inr c, s1) \<and> CMake_configure drv c s1 = Some (Inr (), s2)
              \<and> CMake_build drv c s2 = None))
   \<and> (package drv (tr, self) = None \<longleftrightarrow>
        CMake drv self = None
        \<or> (\<exists>c s1. CMake drv self = Some (Inr c, s1) \<and> CMake_install drv c s1 = None))
   \<and> (\<exists>self'. (package_info (tr, self) :: ('e, unit, 'w state) result) = Some (Inr (), (tr, self')))
   \<and> (layout drv (tr, self) = Some (r, (tr', self')) \<longrightarrow> length tr' = length tr + 1)
   \<and> (build drv (tr, self) = Some (r, (tr', self')) \<longrightarrow> length tr' \<le> length tr + 3)
   \<and> (package drv (tr, self) = Some (r, (tr', self')) \<longrightarrow> length tr' \<le> length tr + 2)"
proof (intro conjI impI)
  show "layout drv (tr, self) = None \<longleftrightarrow> cmake_layout drv self = None"
    by (simp add: layout_def invoke_def split: option.splits)
  show "build drv (tr, self) = None \<longleftrightarrow>
        CMake drv self = None
        \<or> (\<exists>c s1. CMake drv self = Some (Inr c, s1) \<and> CMake_configure drv c s1 = None)
        \<or> (\<exists>c s1 s2. CMake drv self = Some (Inr c, s1) \<and> CMake_configure drv c s1 = Some (Inr (), s2)
              \<and> CMake_build drv c s2 = None)"
    unfolding build_cases by (auto split: option.splits sum.splits)
  show "package drv (tr, self) = None \<longleftrightarrow>
        CMake drv self = None
        \<or> (\<exists>c s1. CMake drv self = Some (Inr c, s1) \<and> CMake_install drv c s1 = None)"
    unfolding package_cases by (auto split: option.splits sum.splits)
  show "\<exists>self'. (package_info (tr, self) :: ('e, unit, 'w state) result) = Some (Inr (), (tr, self'))"
    by (simp add: package_info_def)
next
  assume "layout drv (tr, self) = Some (r, (tr', self'))"
  then show "length tr' = length tr + 1"
    by (simp add: layout_def invoke_eq_Some)
next
  assume "build drv (tr, self) = Some (r, (tr', self'))"
  then show "length tr' \<le> length tr + 3"
    unfolding build_cases by (auto split: option.splits sum.splits)
next
  assume "package drv (tr, self) = Some (r, (tr', self'))"
  then show "length tr' \<le> length tr + 2"
    unfolding package_cases by (auto split: option.splits sum.splits)
qed

text \<open>
  With the fifth sample tool \<open>install\<close> never returns: \<open>package\<close> does not end, while
  \<open>layout\<close> and \<open>build\<close>, which do not call \<open>install\<close>, end.
\<close>

theorem methods_terminate_witness:
  "layout install_hangs_driver ([], jsocketppConan \<lparr>libs = []\<rparr> 0) \<noteq> None
   \<and> build install_hangs_driver ([], jsocketppConan \<lparr>libs = []\<rparr> 0) \<noteq> None
   \<and> package install_hangs_driver ([], jsocketppConan \<lparr>libs = []\<rparr> 0) = None"
proof (intro conjI)
  note t = methods_terminate [where drv = install_hangs_driver and tr = "[]"
      and self = "jsocketppConan \<lparr>libs = []\<rparr> 0"]
  have "cmake_layout install_hangs_driver (jsocketppConan \<lparr>libs = []\<rparr> 0) \<noteq> None"
    by (simp add: install_hangs_driver_def stub_driver_def)
  with t [THEN conjunct1]
  show "layout install_hangs_driver ([], jsocketppConan \<lparr>libs = []\<rparr> 0) \<noteq> None"
    by simp
  have "\<not> (CMake install_hangs_driver (jsocketppConan \<lparr>libs = []\<rparr> 0) = None
        \<or> (\<exists>c s1. CMake install_hangs_driver (jsocketppConan \<lparr>libs = []\<rparr> 0) = Some (Inr c, s1)
              \<and> CMake_configure install_hangs_driver c s1 = None)
        \<or> (\<exists>c s1 s2. CMake install_hangs_driver (jsocketppConan \<lparr>libs = []\<rparr> 0) = Some (Inr c, s1)
              \<and> CMake_configure install_hangs_driver c s1 = Some (Inr (), s2)
              \<and> CMake_build install_hangs_driver c s2 = None))"
    by (simp add: install_hangs_driver_def stub_driver_def)
  with t [THEN conjunct2, THEN conjunct1]
  show "build install_hangs_driver ([], jsocketppConan \<lparr>libs = []\<rparr> 0) \<noteq> None"
    by simp
  have "\<exists>c s1. CMake install_hangs_driver (jsocketppConan \<lparr>libs = []\<rparr> 0) = Some (Inr c, s1)
        \<and> CMake_install install_hangs_driver c s1 = None"
    by (simp add: install_hangs_driver_def stub_driver_def)
  with t [THEN conjunct2, THEN conjunct2, THEN conjunct1]
  show "package install_hangs_driver ([], jsocketppConan \<lparr>libs = []\<rparr> 0) = None"
    by simp
qed

subsection \<open>Repeating and comparing \<open>package_info\<close>\<close>

lemma package_info_twice:
  "and_then package_info (\<lambda>_. package_info) = (package_info :: 'w state \<Rightarrow> ('e, unit, 'w state) result)"
  by (rule ext) (simp add: and_then_def package_info_def split: prod.splits)

lemma repeat_package_info:
  "repeat_call (Suc n) package_info = (package_info :: 'w state \<Rightarrow> ('e, unit, 'w state) result)"
proof (induction n)
  case 0
  show ?case by (rule ext) (simp add: and_then_def package_info_def split: prod.splits)
next
  case (Suc n)
  have "repeat_call (Suc (Suc n)) package_info
      = and_then package_info (\<lambda>_. repeat_call (Suc n) (package_info :: 'w state \<Rightarrow> ('e, unit, 'w state) result))"
    by simp
  also have "\<dots> = and_then package_info (\<lambda>_. (package_info :: 'w state \<Rightarrow> ('e, unit, 'w state) result))"
    by (simp only: Suc.IH)
  also have "\<dots> = package_info" by (rule package_info_twice)
  finally show ?case .
qed

text \<open>
  C8. \<open>package_info\<close> overwrites: calling it twice is the same as calling it once,
  and after any positive number of consecutive calls, whatever \<open>cpp_info.libs\<close> held
  before, \<open>cpp_info.libs\<close> is \<open>["socket"]\<close>.
\<close>

theorem package_info_idempotent:
  "and_then package_info (\<lambda>_. package_info) = (package_info :: 'w state \<Rightarrow> ('e, unit, 'w state) result)
   \<and> repeat_call (Suc n) package_info = (package_info :: 'w state \<Rightarrow> ('e, unit, 'w state) result)
   \<and> libs_after (repeat_call (Suc n) package_info (tr, self) :: ('e, unit, 'w state) result)
        = Some [''socket'']"
  by (simp only: package_info_twice repeat_package_info) (simp add: libs_after_def package_info_def)


end
